theory Spec2Isabelle
  imports Complex_Main
begin

section \<open>Offline synchronisation of assignments (assign-sync.ts)\<close>

text \<open>
  The provider \<open>AddonModAssignSyncProvider\<close> reconciles the offline edits of an
  assignment (submissions and grades) with the site. Its promise chains are embedded as
  functions over an explicit \<open>world\<close>: the local stores, the device and the log of
  the calls issued to the collaborators. A promise that rejects is \<open>Inl\<close> of the
  rejection value, one that resolves is \<open>Inr\<close> of its value. The collaborators that
  reach the site are parameters (the record \<open>env\<close>); each of them answers as a
  function of the calls issued so far and of its arguments.
\<close>

subsection \<open>JavaScript values\<close>

text \<open>A text that may be \<open>undefined\<close>; it is truthy when it is a non-empty string.\<close>

definition truthy_text :: "string option \<Rightarrow> bool" where
  "truthy_text t = (case t of None \<Rightarrow> False | Some s \<Rightarrow> s \<noteq> [])"

text \<open>\<open>a || b\<close> on such texts.\<close>

definition js_or :: "string option \<Rightarrow> string option \<Rightarrow> string option" where
  "js_or a b = (if truthy_text a then a else b)"

text \<open>
  An error object as the upload handlers read it: the four fields that may carry its
  text, and a code that stands for everything else \<open>isWebServiceError\<close> may look at.
\<close>

record error_obj =
  e_message :: "string option"
  e_error :: "string option"
  e_content :: "string option"
  e_body :: "string option"
  e_code :: string

text \<open>The value a promise rejects with.\<close>

datatype rejection =
    RejNull
  | RejText string
  | RejObject error_obj

text \<open>A property read on \<open>undefined\<close> throws a TypeError, which rejects the chain.\<close>

definition typeError :: rejection where
  "typeError = RejObject \<lparr>e_message = Some ''TypeError'', e_error = None, e_content = None,
     e_body = None, e_code = ''TypeError''\<rparr>"

text \<open>The \<open>error &&\<close> test of the catch handlers.\<close>

definition rej_truthy :: "rejection \<Rightarrow> bool" where
  "rej_truthy r = (case r of RejNull \<Rightarrow> False | RejText s \<Rightarrow> s \<noteq> [] | RejObject e \<Rightarrow> True)"

text \<open>\<open>error.message || error.error || error.content || error.body\<close>.\<close>

definition rej_text :: "rejection \<Rightarrow> string option" where
  "rej_text r =
     (case r of
        RejObject e \<Rightarrow> js_or (js_or (js_or (e_message e) (e_error e)) (e_content e)) (e_body e)
      | _ \<Rightarrow> None)"

text \<open>A grade value: \<open>null\<close> or a number.\<close>

datatype js_grade = GradeNull | GradeNumber real

subsection \<open>Data model\<close>

record assign =
  a_id :: nat
  a_cmid :: nat
  a_name :: string
  a_submissiondrafts :: bool

record submission =
  s_timemodified :: int
  s_plugins :: "string list"

text \<open>
  The feedback of a submission status: \<open>gradeddate\<close> (\<open>None\<close> when missing) and the
  \<open>timemodified\<close> of its \<open>grade\<close> object (\<open>None\<close> when there is no such object).
\<close>

record feedback =
  f_gradeddate :: "int option"
  f_grade_timemodified :: "int option"

text \<open>
  A submission status. \<open>st_submission\<close> is what
  \<open>getSubmissionObjectFromAttempt(assign, status.lastattempt)\<close> returns for it
  (\<open>None\<close> for \<open>undefined\<close>).
\<close>

record status =
  st_submission :: "submission option"
  st_feedback :: "feedback option"

record offline_submission =
  os_assignid :: nat
  os_courseid :: nat
  os_userid :: nat
  os_onlinetimemodified :: int
  os_submitted :: bool
  os_submissionstatement :: bool
  os_plugindata :: "(string \<times> string) list"

record offline_grade =
  og_assignid :: nat
  og_courseid :: nat
  og_userid :: nat
  og_timemodified :: int
  og_grade :: js_grade
  og_attemptnumber :: int
  og_addattempt :: bool
  og_workflowstate :: string
  og_applytoall :: bool
  og_outcomes :: "(nat \<times> int) list"
  og_plugindata :: "(string \<times> string) list"

text \<open>
  An entry of the gradebook. Ids are 0 when the entry has none (every falsy value of the
  source is one case here).
\<close>

record gradebook_item =
  g_gradedategraded :: int
  g_outcomeid :: nat
  g_scaleid :: nat
  g_gradeformatted :: string
  g_itemnumber :: nat

record outcome =
  o_scale :: "string option"
  o_selected :: string

record grade_info =
  gi_scale :: "string option"
  gi_outcomes :: "outcome list option"

record sync_result =
  warnings :: "string list"
  updated :: bool

subsection \<open>Collaborators\<close>

text \<open>The calls that reach the site, and the event of the batch driver.\<close>

datatype call =
    GetAssignmentById nat nat string
  | GetSubmissionStatus nat nat string
  | PreparePluginSyncData nat string nat string
  | SaveSubmissionOnline nat "(string \<times> string) list" string
  | SubmitForGradingOnline nat bool string
  | GetGradeModuleItems nat nat nat string
  | GetModuleBasicGradeInfo nat string
  | SubmitGradingFormOnline nat nat offline_grade string
  | InvalidateContent nat nat string
  | TriggerAutoSynced nat "string list" "string option"

fun is_upload :: "call \<Rightarrow> bool" where
  "is_upload (SaveSubmissionOnline _ _ _) = True"
| "is_upload (SubmitForGradingOnline _ _ _) = True"
| "is_upload (SubmitGradingFormOnline _ _ _ _) = True"
| "is_upload _ = False"

text \<open>
  The collaborators of the provider that are not part of it: the translation service,
  \<open>utils.isWebServiceError\<close>, \<open>parseFloat\<close> (\<open>None\<close> for NaN), the setting
  \<open>isOutcomesEditEnabled\<close>, the minimum interval of the base provider, and the calls
  to the site. The first argument of a call is the log of the calls issued before it.
\<close>

record env =
  translate :: "string \<Rightarrow> (string \<times> string) list \<Rightarrow> string"
  componentTranslate :: string
  isWebServiceError :: "rejection \<Rightarrow> bool"
  parseFloat :: "string \<Rightarrow> real option"
  isOutcomesEditEnabled :: bool
  syncInterval :: nat
  getAssignmentById :: "call list \<Rightarrow> nat \<Rightarrow> nat \<Rightarrow> string \<Rightarrow> rejection + assign"
  getSubmissionStatus :: "call list \<Rightarrow> nat \<Rightarrow> nat \<Rightarrow> string \<Rightarrow> rejection + status"
  preparePluginSyncData :: "call list \<Rightarrow> assign \<Rightarrow> submission \<Rightarrow> string \<Rightarrow>
     offline_submission \<Rightarrow> string \<Rightarrow> rejection + (string \<times> string) list"
  saveSubmissionOnline :: "call list \<Rightarrow> nat \<Rightarrow> (string \<times> string) list \<Rightarrow> string \<Rightarrow>
     rejection + unit"
  submitForGradingOnline :: "call list \<Rightarrow> nat \<Rightarrow> bool \<Rightarrow> string \<Rightarrow> rejection + unit"
  getGradeModuleItems :: "call list \<Rightarrow> nat \<Rightarrow> nat \<Rightarrow> nat \<Rightarrow> string \<Rightarrow>
     rejection + gradebook_item list"
  getModuleBasicGradeInfo :: "call list \<Rightarrow> nat \<Rightarrow> string \<Rightarrow> rejection + grade_info option"
  submitGradingFormOnline :: "call list \<Rightarrow> nat \<Rightarrow> nat \<Rightarrow> offline_grade \<Rightarrow> string \<Rightarrow>
     rejection + unit"

text \<open>
  The state the provider works on. The stores hold the pending edits of every site, each
  with the id of its site. \<open>w_ongoing\<close> is the registry of the syncs in flight, a
  promise handle for each (assignment, site); \<open>w_settled\<close> holds what the promises that
  are settled were settled with. \<open>w_now\<close> is the clock; it does not advance while a
  chain runs.
\<close>

record world =
  w_submissions :: "(string \<times> offline_submission) list"
  w_grades :: "(string \<times> offline_grade) list"
  w_online :: bool
  w_blocked :: "(nat \<times> string) list"
  w_currentsite :: string
  w_now :: int
  w_synctimes :: "((nat \<times> string) \<times> int) list"
  w_ongoing :: "((nat \<times> string) \<times> nat) list"
  w_settled :: "(nat \<times> (rejection + sync_result)) list"
  w_nextpromise :: nat
  w_log :: "call list"

definition logCall :: "call \<Rightarrow> world \<Rightarrow> world" where
  "logCall c w = w\<lparr>w_log := w_log w @ [c]\<rparr>"

subsection \<open>The offline store\<close>

text \<open>
  Modelled from the spec: the provider \<open>AddonModAssignOfflineProvider\<close>
  (assign-offline.ts) is not among the sources. The spec describes it as the local
  store of the pending edits, keyed by (assignment id, user id) within a site, with
  accessors per assignment and user, an enumeration of the assignments with pending
  data, and an idempotent delete.
\<close>

definition getAssignSubmissions :: "nat \<Rightarrow> string \<Rightarrow> world \<Rightarrow> offline_submission list" where
  "getAssignSubmissions assignId siteId w =
     map snd (filter (\<lambda>(site, s). site = siteId \<and> os_assignid s = assignId) (w_submissions w))"

definition getAssignSubmissionsGrade :: "nat \<Rightarrow> string \<Rightarrow> world \<Rightarrow> offline_grade list" where
  "getAssignSubmissionsGrade assignId siteId w =
     map snd (filter (\<lambda>(site, g). site = siteId \<and> og_assignid g = assignId) (w_grades w))"

definition deleteSubmission :: "nat \<Rightarrow> nat \<Rightarrow> string \<Rightarrow> world \<Rightarrow> world" where
  "deleteSubmission assignId userId siteId w =
     w\<lparr>w_submissions :=
         filter (\<lambda>(site, s). \<not> (site = siteId \<and> os_assignid s = assignId \<and> os_userid s = userId))
           (w_submissions w)\<rparr>"

definition deleteSubmissionGrade :: "nat \<Rightarrow> nat \<Rightarrow> string \<Rightarrow> world \<Rightarrow> world" where
  "deleteSubmissionGrade assignId userId siteId w =
     w\<lparr>w_grades :=
         filter (\<lambda>(site, g). \<not> (site = siteId \<and> og_assignid g = assignId \<and> og_userid g = userId))
           (w_grades w)\<rparr>"


subsection \<open>Warnings\<close>

text \<open>
  The last step of both reconciliations: when \<open>discardError\<close> is truthy the warning
  \<open>core.warningofflinedatadeleted\<close> is built, and pushed unless the list holds it.
\<close>

definition discardMessage :: "env \<Rightarrow> assign \<Rightarrow> string \<Rightarrow> string" where
  "discardMessage env assign discardError =
     translate env ''core.warningofflinedatadeleted''
       [(''component'', componentTranslate env), (''name'', a_name assign), (''error'', discardError)]"

definition addWarning :: "env \<Rightarrow> assign \<Rightarrow> string option \<Rightarrow> string list \<Rightarrow> string list" where
  "addWarning env assign discardError ws =
     (case discardError of
        None \<Rightarrow> ws
      | Some text \<Rightarrow>
          if text = [] then ws
          else (let message = discardMessage env assign text
                in if message \<in> set ws then ws else ws @ [message]))"

subsection \<open>syncSubmission\<close>

text \<open>
  The calls \<open>preparePluginSyncData\<close> of the plugins of the submission: all of them are
  issued, what they add to \<open>pluginData\<close> is collected, and \<open>Promise.all\<close> rejects with
  the first rejection.
\<close>

fun preparePlugins :: "env \<Rightarrow> assign \<Rightarrow> submission \<Rightarrow> offline_submission \<Rightarrow> string \<Rightarrow>
    string list \<Rightarrow> (string \<times> string) list \<Rightarrow> rejection option \<Rightarrow> world \<Rightarrow>
    (rejection + (string \<times> string) list) \<times> world" where
  "preparePlugins env assign sub offlineData siteId [] pluginData rej w =
     (case rej of None \<Rightarrow> (Inr pluginData, w) | Some e \<Rightarrow> (Inl e, w))"
| "preparePlugins env assign sub offlineData siteId (plugin # plugins) pluginData rej w =
     (let w1 = logCall (PreparePluginSyncData (a_id assign) plugin (os_userid offlineData) siteId) w
      in case preparePluginSyncData env (w_log w) assign sub plugin offlineData siteId of
           Inl e \<Rightarrow> preparePlugins env assign sub offlineData siteId plugins pluginData
                      (case rej of None \<Rightarrow> Some e | Some e0 \<Rightarrow> Some e0) w1
         | Inr added \<Rightarrow> preparePlugins env assign sub offlineData siteId plugins
                      (pluginData @ added) rej w1)"

text \<open>
  The save of the prepared data (skipped when there is none), the submission for grading
  when the user submitted a draft, and the refresh of the cached status, which nothing
  waits for.
\<close>

definition saveAndSubmit :: "env \<Rightarrow> assign \<Rightarrow> offline_submission \<Rightarrow> string \<Rightarrow>
    (string \<times> string) list \<Rightarrow> world \<Rightarrow> (rejection + unit) \<times> world" where
  "saveAndSubmit env assign offlineData siteId pluginData w =
     (let (r1, w1) =
            (if pluginData = [] then (Inr (), w)
             else (saveSubmissionOnline env (w_log w) (a_id assign) pluginData siteId,
                   logCall (SaveSubmissionOnline (a_id assign) pluginData siteId) w))
      in case r1 of
           Inl e \<Rightarrow> (Inl e, w1)
         | Inr _ \<Rightarrow>
             (let (r2, w2) =
                    (if a_submissiondrafts assign \<and> os_submitted offlineData
                     then (submitForGradingOnline env (w_log w1) (a_id assign)
                             (os_submissionstatement offlineData) siteId,
                           logCall (SubmitForGradingOnline (a_id assign)
                             (os_submissionstatement offlineData) siteId) w1)
                     else (Inr (), w1))
              in case r2 of
                   Inl e \<Rightarrow> (Inl e, w2)
                 | Inr _ \<Rightarrow>
                     (Inr (), logCall (GetSubmissionStatus (a_id assign) (os_userid offlineData) siteId) w2)))"

text \<open>
  The catch handler of both uploads: a truthy error that \<open>isWebServiceError\<close> accepts
  sets \<open>discardError\<close> to its text and the chain goes on; any other error rejects.
\<close>

definition catchUpload :: "env \<Rightarrow> (rejection + unit) \<Rightarrow> rejection + string option" where
  "catchUpload env r =
     (case r of
        Inr _ \<Rightarrow> Inr None
      | Inl error \<Rightarrow>
          if rej_truthy error \<and> isWebServiceError env error then Inr (rej_text error)
          else Inl error)"

text \<open>
  The chain of lines 283 to 307 for a submission that is not stale, before its catch
  handler.
\<close>

definition sendSubmission :: "env \<Rightarrow> assign \<Rightarrow> submission \<Rightarrow> offline_submission \<Rightarrow> string \<Rightarrow>
    world \<Rightarrow> (rejection + unit) \<times> world" where
  "sendSubmission env assign sub offlineData siteId w =
     (case preparePlugins env assign sub offlineData siteId (s_plugins sub) [] None w of
        (Inl e, w1) \<Rightarrow> (Inl e, w1)
      | (Inr pluginData, w1) \<Rightarrow> saveAndSubmit env assign offlineData siteId pluginData w1)"

text \<open>The same chain with its catch handler. It resolves with the value of \<open>discardError\<close>.\<close>

definition uploadSubmission :: "env \<Rightarrow> assign \<Rightarrow> submission \<Rightarrow> offline_submission \<Rightarrow> string \<Rightarrow>
    world \<Rightarrow> (rejection + string option) \<times> world" where
  "uploadSubmission env assign sub offlineData siteId w =
     (let (r, w') = sendSubmission env assign sub offlineData siteId w
      in (catchUpload env r, w'))"

text \<open>
  Modelled from the spec: \<open>deletePluginOfflineData\<close> of the submission delegate
  (submission-delegate.ts, not among the sources) deletes the offline data the plugins
  keep for the edit. It belongs to the local store, which this model holds for the edits
  themselves only, so it changes nothing here.
\<close>

definition deletePluginOfflineData :: "assign \<Rightarrow> submission \<Rightarrow> string list \<Rightarrow> world \<Rightarrow> world" where
  "deletePluginOfflineData assign sub plugins w = w"

definition syncSubmission :: "env \<Rightarrow> assign \<Rightarrow> offline_submission \<Rightarrow> string list \<Rightarrow> string \<Rightarrow>
    world \<Rightarrow> (rejection + unit) \<times> string list \<times> world" where
  "syncSubmission env assign offlineData ws siteId w =
     (let userId = os_userid offlineData;
          w1 = logCall (GetSubmissionStatus (a_id assign) userId siteId) w
      in case getSubmissionStatus env (w_log w) (a_id assign) userId siteId of
           Inl e \<Rightarrow> (Inl e, ws, w1)
         | Inr st \<Rightarrow>
             (case st_submission st of
                None \<Rightarrow> (Inl typeError, ws, w1)
              | Some sub \<Rightarrow>
                  (let (r, w2) =
                         (if s_timemodified sub \<noteq> os_onlinetimemodified offlineData
                          then (Inr (Some (translate env ''addon.mod_assign.warningsubmissionmodified'' [])), w1)
                          else uploadSubmission env assign sub offlineData siteId w1)
                   in case r of
                        Inl e \<Rightarrow> (Inl e, ws, w2)
                      | Inr discardError \<Rightarrow>
                          (Inr (), addWarning env assign discardError ws,
                           deletePluginOfflineData assign sub (s_plugins sub)
                             (deleteSubmission (a_id assign) userId siteId w2)))))"

subsection \<open>getSelectedScaleId\<close>

text \<open>
  \<open>String.prototype.indexOf\<close>: the first position at which \<open>sel\<close> occurs in the
  string, -1 when it does not occur. The empty string occurs at position 0.
\<close>

fun indexOfFrom :: "string \<Rightarrow> string \<Rightarrow> nat \<Rightarrow> int" where
  "indexOfFrom [] sel i = (if sel = [] then int i else - 1)"
| "indexOfFrom (c # cs) sel i =
     (if take (length sel) (c # cs) = sel then int i else indexOfFrom cs sel (Suc i))"

definition indexOf :: "string \<Rightarrow> string \<Rightarrow> int" where
  "indexOf s sel = indexOfFrom s sel 0"

text \<open>\<open>split(',')\<close> and \<open>trim()\<close>.\<close>

fun splitComma :: "string \<Rightarrow> string list" where
  "splitComma [] = [[]]"
| "splitComma (c # cs) =
     (if c = CHR '','' then [] # splitComma cs
      else (case splitComma cs of [] \<Rightarrow> [[c]] | x # xs \<Rightarrow> (c # x) # xs))"

definition is_space :: "char \<Rightarrow> bool" where
  "is_space c = (c \<in> {CHR '' '', CHR 0x09, CHR 0x0A, CHR 0x0B, CHR 0x0C, CHR 0x0D})"

definition trim :: "string \<Rightarrow> string" where
  "trim s = rev (dropWhile is_space (rev (dropWhile is_space s)))"

text \<open>
  The list \<open>optionsList\<close> of lines 78 to 84 (the options, trimmed, after an empty first
  entry).
\<close>

definition optionsList :: "string \<Rightarrow> string list" where
  "optionsList options = [] # map trim (splitComma options)"

text \<open>
  Lines 77 to 92. The index is searched in the string \<open>options\<close>, not in
  \<open>optionsList\<close>, which the result does not depend on.
\<close>

definition getSelectedScaleId :: "string \<Rightarrow> string \<Rightarrow> int" where
  "getSelectedScaleId options selected =
     (let index = (let i = indexOf options selected in if i = 0 then 0 else i)
      in if index < 0 then 0 else index)"

subsection \<open>syncSubmissionGrade\<close>

text \<open>
  \<open>status.feedback && (status.feedback.gradeddate || status.feedback.grade.timemodified)\<close>:
  \<open>None\<close> is \<open>undefined\<close>; reading \<open>timemodified\<close> of a missing \<open>grade\<close> throws.
\<close>

definition feedbackTime :: "status \<Rightarrow> rejection + int option" where
  "feedbackTime st =
     (case st_feedback st of
        None \<Rightarrow> Inr None
      | Some fb \<Rightarrow>
          (if f_gradeddate fb \<noteq> None \<and> f_gradeddate fb \<noteq> Some 0 then Inr (f_gradeddate fb)
           else (case f_grade_timemodified fb of
                   None \<Rightarrow> Inl typeError
                 | Some t \<Rightarrow> Inr (Some t))))"

text \<open>\<open>timemodified > offlineData.timemodified\<close>, false when the left side is \<open>undefined\<close>.\<close>

definition js_greater :: "int option \<Rightarrow> int \<Rightarrow> bool" where
  "js_greater a b = (case a of None \<Rightarrow> False | Some x \<Rightarrow> x > b)"

text \<open>\<open>offlineData.outcomes[k] = v\<close>.\<close>

definition putOutcome :: "nat \<Rightarrow> int \<Rightarrow> (nat \<times> int) list \<Rightarrow> (nat \<times> int) list" where
  "putOutcome k v xs =
     (if k \<in> fst ` set xs then map (\<lambda>(k', v'). if k' = k then (k', v) else (k', v')) xs
      else xs @ [(k, v)])"

text \<open>\<open>parseFloat(grade.gradeformatted) || null\<close>.\<close>

definition parseOrNull :: "env \<Rightarrow> string \<Rightarrow> js_grade" where
  "parseOrNull env s =
     (case parseFloat env s of
        None \<Rightarrow> GradeNull
      | Some x \<Rightarrow> if x = 0 then GradeNull else GradeNumber x)"

text \<open>The value lines 378 to 382 store in \<open>offlineData.grade\<close> for a gradebook entry.\<close>

definition gradebookGrade :: "env \<Rightarrow> grade_info option \<Rightarrow> gradebook_item \<Rightarrow> js_grade" where
  "gradebookGrade env gradeInfo grade =
     (case gradeInfo of
        None \<Rightarrow> parseOrNull env (g_gradeformatted grade)
      | Some gi \<Rightarrow>
          (case gi_scale gi of
             None \<Rightarrow> parseOrNull env (g_gradeformatted grade)
           | Some scale \<Rightarrow>
               if scale = [] then parseOrNull env (g_gradeformatted grade)
               else GradeNumber (of_int (getSelectedScaleId scale (g_gradeformatted grade)))))"

text \<open>
  The loop over \<open>gradeInfo.outcomes\<close> of lines 384 to 389, for the outcomes from
  position \<open>index\<close> on.
\<close>

fun overrideOutcomes :: "gradebook_item \<Rightarrow> outcome list \<Rightarrow> nat \<Rightarrow> (nat \<times> int) list \<Rightarrow>
    (nat \<times> int) list" where
  "overrideOutcomes grade [] index outs = outs"
| "overrideOutcomes grade (outcome # rest) index outs =
     overrideOutcomes grade rest (Suc index)
       (if truthy_text (o_scale outcome) \<and> g_itemnumber grade = index
        then (case o_scale outcome of
                None \<Rightarrow> outs
              | Some scale \<Rightarrow>
                  putOutcome (g_itemnumber grade) (getSelectedScaleId scale (o_selected outcome)) outs)
        else outs)"

text \<open>
  The body of the loop over the gradebook entries (lines 375 to 392) for one entry.
  Reading \<open>gradeInfo.outcomes\<close> when there is no \<open>gradeInfo\<close> throws.
\<close>

definition overrideGrade :: "env \<Rightarrow> grade_info option \<Rightarrow> gradebook_item \<Rightarrow> offline_grade \<Rightarrow>
    rejection + offline_grade" where
  "overrideGrade env gradeInfo grade offlineData =
     (if g_gradedategraded grade \<ge> og_timemodified offlineData then
        (if g_outcomeid grade = 0 \<and> g_scaleid grade = 0 then
           Inr (offlineData\<lparr>og_grade := gradebookGrade env gradeInfo grade\<rparr>)
         else if g_outcomeid grade \<noteq> 0 \<and> isOutcomesEditEnabled env then
           (case gradeInfo of
              None \<Rightarrow> Inl typeError
            | Some gi \<Rightarrow>
                (case gi_outcomes gi of
                   None \<Rightarrow> Inr offlineData
                 | Some outs \<Rightarrow>
                     Inr (offlineData\<lparr>og_outcomes :=
                            overrideOutcomes grade outs 0 (og_outcomes offlineData)\<rparr>)))
         else Inr offlineData)
      else Inr offlineData)"

fun overrideGrades :: "env \<Rightarrow> grade_info option \<Rightarrow> gradebook_item list \<Rightarrow> offline_grade \<Rightarrow>
    rejection + offline_grade" where
  "overrideGrades env gradeInfo [] offlineData = Inr offlineData"
| "overrideGrades env gradeInfo (grade # grades) offlineData =
     (case overrideGrade env gradeInfo grade offlineData of
        Inl e \<Rightarrow> Inl e
      | Inr offlineData' \<Rightarrow> overrideGrades env gradeInfo grades offlineData')"

text \<open>
  Lines 371 to 393: the gradebook and the grade information of the module are read and
  the offline grade is overridden. No catch handler covers this part.
\<close>

definition gradebookOverride :: "env \<Rightarrow> assign \<Rightarrow> offline_grade \<Rightarrow> nat \<Rightarrow> string \<Rightarrow> world \<Rightarrow>
    (rejection + offline_grade) \<times> world" where
  "gradebookOverride env assign offlineData courseId siteId w =
     (let userId = og_userid offlineData;
          w1 = logCall (GetGradeModuleItems courseId (a_cmid assign) userId siteId) w
      in case getGradeModuleItems env (w_log w) courseId (a_cmid assign) userId siteId of
           Inl e \<Rightarrow> (Inl e, w1)
         | Inr grades \<Rightarrow>
             (let w2 = logCall (GetModuleBasicGradeInfo (a_cmid assign) siteId) w1
              in case getModuleBasicGradeInfo env (w_log w1) (a_cmid assign) siteId of
                   Inl e \<Rightarrow> (Inl e, w2)
                 | Inr gradeInfo \<Rightarrow> (overrideGrades env gradeInfo grades offlineData, w2)))"

text \<open>
  Lines 396 to 401: the grade is sent, and the cached status is refreshed, which nothing
  waits for.
\<close>

definition sendGrade :: "env \<Rightarrow> assign \<Rightarrow> offline_grade \<Rightarrow> string \<Rightarrow> world \<Rightarrow>
    (rejection + unit) \<times> world" where
  "sendGrade env assign offlineData siteId w =
     (let userId = og_userid offlineData;
          w1 = logCall (SubmitGradingFormOnline (a_id assign) userId offlineData siteId) w
      in case submitGradingFormOnline env (w_log w) (a_id assign) userId offlineData siteId of
           Inl e \<Rightarrow> (Inl e, w1)
         | Inr u \<Rightarrow> (Inr u, logCall (GetSubmissionStatus (a_id assign) userId siteId) w1))"

text \<open>
  Lines 370 to 411. Only the rejection of \<open>submitGradingFormOnline\<close> reaches the catch
  handler. It resolves with the value of \<open>discardError\<close>.
\<close>

definition uploadGrade :: "env \<Rightarrow> assign \<Rightarrow> offline_grade \<Rightarrow> nat \<Rightarrow> string \<Rightarrow> world \<Rightarrow>
    (rejection + string option) \<times> world" where
  "uploadGrade env assign offlineData courseId siteId w =
     (case gradebookOverride env assign offlineData courseId siteId w of
        (Inl e, w1) \<Rightarrow> (Inl e, w1)
      | (Inr offlineData', w1) \<Rightarrow>
          (let (r, w2) = sendGrade env assign offlineData' siteId w1
           in (catchUpload env r, w2)))"

definition syncSubmissionGrade :: "env \<Rightarrow> assign \<Rightarrow> offline_grade \<Rightarrow> string list \<Rightarrow> nat \<Rightarrow> string \<Rightarrow>
    world \<Rightarrow> (rejection + unit) \<times> string list \<times> world" where
  "syncSubmissionGrade env assign offlineData ws courseId siteId w =
     (let userId = og_userid offlineData;
          w1 = logCall (GetSubmissionStatus (a_id assign) userId siteId) w
      in case getSubmissionStatus env (w_log w) (a_id assign) userId siteId of
           Inl e \<Rightarrow> (Inl e, ws, w1)
         | Inr st \<Rightarrow>
             (case feedbackTime st of
                Inl e \<Rightarrow> (Inl e, ws, w1)
              | Inr timemodified \<Rightarrow>
                  (let (r, w2) =
                         (if js_greater timemodified (og_timemodified offlineData)
                          then (Inr (Some (translate env ''addon.mod_assign.warningsubmissiongrademodified'' [])), w1)
                          else uploadGrade env assign offlineData courseId siteId w1)
                   in case r of
                        Inl e \<Rightarrow> (Inl e, ws, w2)
                      | Inr discardError \<Rightarrow>
                          (Inr (), addWarning env assign discardError ws,
                           deleteSubmissionGrade (a_id assign) userId siteId w2))))"

subsection \<open>syncAssign\<close>

text \<open>
  The reconciliations of lines 222 to 234 run concurrently in the source. Here they run
  one after the other, each to its end, in the order in which they are started; they
  share the list of warnings. Every one of them runs, also after another one has
  rejected. The accumulator holds the warnings, the flag \<open>result.updated\<close> and the
  first rejection.
\<close>

type_synonym sync_acc = "string list \<times> bool \<times> rejection option"

definition firstRejection :: "rejection option \<Rightarrow> rejection \<Rightarrow> rejection option" where
  "firstRejection rej e = (case rej of None \<Rightarrow> Some e | Some e0 \<Rightarrow> Some e0)"

fun syncSubmissions :: "env \<Rightarrow> assign \<Rightarrow> string \<Rightarrow> offline_submission list \<Rightarrow> sync_acc \<Rightarrow> world \<Rightarrow>
    sync_acc \<times> world" where
  "syncSubmissions env assign siteId [] acc w = (acc, w)"
| "syncSubmissions env assign siteId (s # ss) (ws, upd, rej) w =
     (case syncSubmission env assign s ws siteId w of
        (Inr _, ws', w') \<Rightarrow> syncSubmissions env assign siteId ss (ws', True, rej) w'
      | (Inl e, ws', w') \<Rightarrow> syncSubmissions env assign siteId ss (ws', upd, firstRejection rej e) w')"

fun syncGrades :: "env \<Rightarrow> assign \<Rightarrow> nat \<Rightarrow> string \<Rightarrow> offline_grade list \<Rightarrow> sync_acc \<Rightarrow> world \<Rightarrow>
    sync_acc \<times> world" where
  "syncGrades env assign courseId siteId [] acc w = (acc, w)"
| "syncGrades env assign courseId siteId (g # gs) (ws, upd, rej) w =
     (case syncSubmissionGrade env assign g ws courseId siteId w of
        (Inr _, ws', w') \<Rightarrow> syncGrades env assign courseId siteId gs (ws', True, rej) w'
      | (Inl e, ws', w') \<Rightarrow> syncGrades env assign courseId siteId gs (ws', upd, firstRejection rej e) w')"

text \<open>
  Modelled from the spec: the base class \<open>CoreSyncBaseProvider\<close> (classes/base-sync)
  and the block registry of \<open>CoreSyncProvider\<close> are not among the sources. The spec
  describes a synchronous check of whether an entity is blocked; a registry of the
  operations in flight keyed by (entity id, site), whose entries are removed on
  completion; the time of the last successful sync; and a sync that is needed only if
  the time elapsed since then exceeds the minimum interval. An entity that was never
  synced needs a sync.
\<close>

definition siteIdOr :: "string option \<Rightarrow> world \<Rightarrow> string" where
  "siteIdOr siteId w = (if truthy_text siteId then (case siteId of None \<Rightarrow> w_currentsite w | Some s \<Rightarrow> s)
                        else w_currentsite w)"

definition isBlocked :: "nat \<Rightarrow> string \<Rightarrow> world \<Rightarrow> bool" where
  "isBlocked assignId siteId w = ((assignId, siteId) \<in> set (w_blocked w))"

definition getOngoingSync :: "nat \<Rightarrow> string \<Rightarrow> world \<Rightarrow> nat option" where
  "getOngoingSync assignId siteId w = map_of (w_ongoing w) (assignId, siteId)"

definition isSyncing :: "nat \<Rightarrow> string \<Rightarrow> world \<Rightarrow> bool" where
  "isSyncing assignId siteId w = (getOngoingSync assignId siteId w \<noteq> None)"

definition addOngoingSync :: "nat \<Rightarrow> string \<Rightarrow> nat \<Rightarrow> world \<Rightarrow> world" where
  "addOngoingSync assignId siteId promise w =
     w\<lparr>w_ongoing := ((assignId, siteId), promise) # w_ongoing w\<rparr>"

definition removeOngoingSync :: "nat \<Rightarrow> string \<Rightarrow> world \<Rightarrow> world" where
  "removeOngoingSync assignId siteId w =
     w\<lparr>w_ongoing := filter (\<lambda>(k, h). k \<noteq> (assignId, siteId)) (w_ongoing w)\<rparr>"

definition setSyncTime :: "nat \<Rightarrow> string \<Rightarrow> world \<Rightarrow> world" where
  "setSyncTime assignId siteId w =
     w\<lparr>w_synctimes := ((assignId, siteId), w_now w) # w_synctimes w\<rparr>"

definition isSyncNeeded :: "env \<Rightarrow> nat \<Rightarrow> string \<Rightarrow> world \<Rightarrow> bool" where
  "isSyncNeeded env assignId siteId w =
     (case map_of (w_synctimes w) (assignId, siteId) of
        None \<Rightarrow> True
      | Some time \<Rightarrow> w_now w - time > int (syncInterval env))"

text \<open>
  Line 215: the course of the first pending submission, or of the first pending grade
  when there is no submission. It is read only when one of the lists is not empty.
\<close>

definition courseIdOf :: "offline_submission list \<Rightarrow> offline_grade list \<Rightarrow> nat" where
  "courseIdOf submissions grades =
     (case submissions of
        s # _ \<Rightarrow> os_courseid s
      | [] \<Rightarrow> (case grades of g # _ \<Rightarrow> og_courseid g | [] \<Rightarrow> 0))"

text \<open>
  The promise \<open>syncPromise\<close> of lines 189 to 251, run to its end: the pending edits are
  read; with none of them the chain goes on to the sync time; offline it rejects with
  \<open>null\<close>; otherwise the assignment is fetched and the edits are reconciled. If one of
  them rejects the chain rejects; else the content is invalidated when
  \<open>result.updated\<close> is set, the sync time is stored and the result is returned.
\<close>

definition syncAssignChain :: "env \<Rightarrow> nat \<Rightarrow> string \<Rightarrow> world \<Rightarrow> (rejection + sync_result) \<times> world" where
  "syncAssignChain env assignId siteId w =
     (let submissions = getAssignSubmissions assignId siteId w;
          grades = getAssignSubmissionsGrade assignId siteId w
      in if submissions = [] \<and> grades = [] then
           (Inr \<lparr>warnings = [], updated = False\<rparr>, setSyncTime assignId siteId w)
         else if \<not> w_online w then (Inl RejNull, w)
         else
           (let courseId = courseIdOf submissions grades;
                w1 = logCall (GetAssignmentById courseId assignId siteId) w
            in case getAssignmentById env (w_log w) courseId assignId siteId of
                 Inl e \<Rightarrow> (Inl e, w1)
               | Inr assign \<Rightarrow>
                   (let (acc1, w2) = syncSubmissions env assign siteId submissions ([], False, None) w1;
                        ((ws, upd, rej), w3) = syncGrades env assign courseId siteId grades acc1 w2
                    in case rej of
                         Some e \<Rightarrow> (Inl e, w3)
                       | None \<Rightarrow>
                           (let w4 = (if upd then logCall (InvalidateContent (a_cmid assign) courseId siteId) w3
                                      else w3)
                            in (Inr \<lparr>warnings = ws, updated = upd\<rparr>, setSyncTime assignId siteId w4)))))"

text \<open>
  The synchronous part of \<open>syncAssign\<close> (lines 165 to 187 and 253): a sync in flight
  for the pair is returned as it is; a blocked assignment is refused at once; otherwise
  the promise of a new sync is registered. (\<open>isSyncing\<close> holds exactly when the
  registry has a promise for the pair, so the case without one does not arise.)
\<close>

datatype sync_call = Ongoing nat | Refused rejection | Started nat

definition syncAssignStart :: "env \<Rightarrow> nat \<Rightarrow> string option \<Rightarrow> world \<Rightarrow> sync_call \<times> world" where
  "syncAssignStart env assignId siteIdArg w =
     (let siteId = siteIdOr siteIdArg w
      in if isSyncing assignId siteId w then
           (case getOngoingSync assignId siteId w of
              Some promise \<Rightarrow> (Ongoing promise, w)
            | None \<Rightarrow> (Refused typeError, w))
         else if isBlocked assignId siteId w then
           (Refused (RejText (translate env ''core.errorsyncblocked'' [(''$a'', componentTranslate env)])), w)
         else
           (let promise = w_nextpromise w
            in (Started promise, addOngoingSync assignId siteId promise (w\<lparr>w_nextpromise := Suc promise\<rparr>))))"

text \<open>
  The settling of a registered sync: its chain runs, the promise is settled with the
  outcome and the entry leaves the registry.
\<close>

definition syncAssignSettle :: "env \<Rightarrow> nat \<Rightarrow> string \<Rightarrow> nat \<Rightarrow> world \<Rightarrow> (rejection + sync_result) \<times> world" where
  "syncAssignSettle env assignId siteId promise w =
     (let (r, w') = syncAssignChain env assignId siteId w
      in (r, removeOngoingSync assignId siteId (w'\<lparr>w_settled := (promise, r) # w_settled w'\<rparr>)))"

text \<open>
  A call of \<open>syncAssign\<close> whose sync nothing interleaves with: it returns the promise
  in flight, or what its own promise is settled with.
\<close>

datatype sync_return = InFlight nat | Settled "rejection + sync_result"

definition syncAssign :: "env \<Rightarrow> nat \<Rightarrow> string option \<Rightarrow> world \<Rightarrow> sync_return \<times> world" where
  "syncAssign env assignId siteIdArg w =
     (case syncAssignStart env assignId siteIdArg w of
        (Ongoing promise, w1) \<Rightarrow> (InFlight promise, w1)
      | (Refused e, w1) \<Rightarrow> (Settled (Inl e), w1)
      | (Started promise, w1) \<Rightarrow>
          (let (r, w2) = syncAssignSettle env assignId (siteIdOr siteIdArg w) promise w1
           in (Settled r, w2)))"

subsection \<open>syncAssignIfNeeded and the batch driver\<close>

text \<open>\<open>None\<close> is the promise resolved with \<open>undefined\<close>: no sync was run.\<close>

definition syncAssignIfNeeded :: "env \<Rightarrow> nat \<Rightarrow> string option \<Rightarrow> world \<Rightarrow> sync_return option \<times> world" where
  "syncAssignIfNeeded env assignId siteIdArg w =
     (if isSyncNeeded env assignId (siteIdOr siteIdArg w) w
      then (let (r, w') = syncAssign env assignId siteIdArg w in (Some r, w'))
      else (None, w))"




subsection \<open>Conflicts\<close>



text \<open>
  The gradebook entries that lines 376 and 377 let override \<open>offlineData.grade\<close>: no
  outcome id, no scale id, and graded not before the edit was made.
\<close>

definition overridesGrade :: "offline_grade \<Rightarrow> gradebook_item \<Rightarrow> bool" where
  "overridesGrade offlineData grade =
     (g_gradedategraded grade \<ge> og_timemodified offlineData \<and> g_outcomeid grade = 0 \<and> g_scaleid grade = 0)"

subsection \<open>Scenarios\<close>

text \<open>
  Concrete collaborators and states: assignment 7 of course 3 on the site \<open>site\<close>, with
  edits made on the submission of time 100.
\<close>

definition demoTranslate :: "string \<Rightarrow> (string \<times> string) list \<Rightarrow> string" where
  "demoTranslate key params = key @ concat (map (\<lambda>(k, v). CHR '' '' # v) params)"

definition demoAssign :: assign where
  "demoAssign = \<lparr>a_id = 7, a_cmid = 70, a_name = ''Essay'', a_submissiondrafts = True\<rparr>"

definition demoEdit :: "nat \<Rightarrow> offline_submission" where
  "demoEdit user = \<lparr>os_assignid = 7, os_courseid = 3, os_userid = user, os_onlinetimemodified = 100,
     os_submitted = False, os_submissionstatement = False, os_plugindata = []\<rparr>"

definition demoGrade :: "nat \<Rightarrow> offline_grade" where
  "demoGrade user = \<lparr>og_assignid = 7, og_courseid = 3, og_userid = user, og_timemodified = 100,
     og_grade = GradeNumber 4, og_attemptnumber = 0, og_addattempt = False, og_workflowstate = [],
     og_applytoall = False, og_outcomes = [], og_plugindata = []\<rparr>"

definition demoStatus :: "int \<Rightarrow> status" where
  "demoStatus t = \<lparr>st_submission = Some \<lparr>s_timemodified = t, s_plugins = [''onlinetext'']\<rparr>,
     st_feedback = None\<rparr>"

text \<open>An entry of the gradebook graded at time 150, with the outcome id given.\<close>

definition demoItem :: "nat \<Rightarrow> gradebook_item" where
  "demoItem outcomeId = \<lparr>g_gradedategraded = 150, g_outcomeid = outcomeId, g_scaleid = 0,
     g_gradeformatted = ''7.5'', g_itemnumber = 0\<rparr>"

text \<open>An error object with the given code and message.\<close>

definition demoError :: "string \<Rightarrow> string option \<Rightarrow> rejection" where
  "demoError code message = RejObject \<lparr>e_message = message, e_error = None, e_content = None,
     e_body = None, e_code = code\<rparr>"

text \<open>
  A site whose submission has the time \<open>t\<close>, whose gradebook holds \<open>items\<close>, and
  which answers every upload with \<open>answer\<close>. Errors with the code \<open>ws\<close> are errors of
  the web service.
\<close>

definition demoEnv :: "int \<Rightarrow> gradebook_item list \<Rightarrow> (rejection + unit) \<Rightarrow> env" where
  "demoEnv t items answer = \<lparr>translate = demoTranslate, componentTranslate = ''Assignment'',
     isWebServiceError = (\<lambda>r. case r of RejObject e \<Rightarrow> e_code e = ''ws'' | _ \<Rightarrow> False),
     parseFloat = (\<lambda>s. if s = ''7.5'' then Some 7.5 else None),
     isOutcomesEditEnabled = False, syncInterval = 300,
     getAssignmentById = (\<lambda>calls c a s. Inr demoAssign),
     getSubmissionStatus = (\<lambda>calls a u s. Inr (demoStatus t)),
     preparePluginSyncData = (\<lambda>calls a sub p od s. Inr [(p, ''text'')]),
     saveSubmissionOnline = (\<lambda>calls a d s. answer),
     submitForGradingOnline = (\<lambda>calls a st s. answer),
     getGradeModuleItems = (\<lambda>calls c m u s. Inr items),
     getModuleBasicGradeInfo = (\<lambda>calls m s. Inr None),
     submitGradingFormOnline = (\<lambda>calls a u od s. answer)\<rparr>"

definition demoWorld :: "(string \<times> offline_submission) list \<Rightarrow> (string \<times> offline_grade) list \<Rightarrow> world" where
  "demoWorld submissions grades = \<lparr>w_submissions = submissions, w_grades = grades, w_online = True,
     w_blocked = [], w_currentsite = ''site'', w_now = 1000, w_synctimes = [], w_ongoing = [],
     w_settled = [], w_nextpromise = 0, w_log = []\<rparr>"

text \<open>The warning for an edit of the assignment discarded with the given text.\<close>

definition demoWarning :: "string \<Rightarrow> string" where
  "demoWarning text = ''core.warningofflinedatadeleted Assignment Essay '' @ text"

section \<open>Properties\<close>

lemmas demo_defs = demoTranslate_def demoAssign_def demoEdit_def demoGrade_def demoStatus_def
  demoItem_def demoError_def demoEnv_def demoWorld_def demoWarning_def

lemmas submission_defs = syncSubmission_def uploadSubmission_def sendSubmission_def saveAndSubmit_def
  catchUpload_def addWarning_def discardMessage_def deletePluginOfflineData_def
  deleteSubmission_def logCall_def rej_truthy_def rej_text_def js_or_def truthy_text_def

lemmas grade_defs = syncSubmissionGrade_def uploadGrade_def gradebookOverride_def sendGrade_def
  feedbackTime_def js_greater_def overrideGrade_def gradebookGrade_def parseOrNull_def
  deleteSubmissionGrade_def catchUpload_def addWarning_def discardMessage_def logCall_def
  rej_truthy_def rej_text_def js_or_def truthy_text_def

lemmas assign_defs = syncAssign_def syncAssignStart_def syncAssignSettle_def syncAssignChain_def
  siteIdOr_def isSyncing_def getOngoingSync_def isBlocked_def addOngoingSync_def
  removeOngoingSync_def setSyncTime_def courseIdOf_def getAssignSubmissions_def
  getAssignSubmissionsGrade_def truthy_text_def logCall_def

subsection \<open>A submission modified on the site\<close>




subsection \<open>Warnings are not repeated\<close>

lemma distinct_addWarning: "distinct ws \<Longrightarrow> distinct (addWarning env assign d ws)"
  by (simp add: addWarning_def Let_def split: option.splits)

lemma syncSubmission_distinct:
  "distinct ws \<Longrightarrow> distinct (fst (snd (syncSubmission env assign s ws siteId w)))"
  by (simp add: syncSubmission_def Let_def distinct_addWarning split: sum.splits option.splits prod.splits)

lemma syncSubmissionGrade_distinct:
  "distinct ws \<Longrightarrow> distinct (fst (snd (syncSubmissionGrade env assign g ws courseId siteId w)))"
  by (simp add: syncSubmissionGrade_def Let_def distinct_addWarning split: sum.splits option.splits prod.splits)

lemma syncSubmissions_distinct:
  "distinct ws \<Longrightarrow> distinct (fst (fst (syncSubmissions env assign siteId ss (ws, upd, rej) w)))"
proof (induction ss arbitrary: ws upd rej w)
  case Nil
  then show ?case by simp
next
  case (Cons s ss)
  obtain r ws' w' where step: "syncSubmission env assign s ws siteId w = (r, ws', w')"
    by (cases "syncSubmission env assign s ws siteId w") auto
  have "distinct ws'"
    using syncSubmission_distinct [OF Cons.prems, of env assign s siteId w] step by simp
  then show ?case
    using Cons.IH step by (cases r) simp_all
qed

lemma syncGrades_distinct:
  "distinct ws \<Longrightarrow> distinct (fst (fst (syncGrades env assign courseId siteId gs (ws, upd, rej) w)))"
proof (induction gs arbitrary: ws upd rej w)
  case Nil
  then show ?case by simp
next
  case (Cons g gs)
  obtain r ws' w' where step: "syncSubmissionGrade env assign g ws courseId siteId w = (r, ws', w')"
    by (cases "syncSubmissionGrade env assign g ws courseId siteId w") auto
  have "distinct ws'"
    using syncSubmissionGrade_distinct [OF Cons.prems, of env assign g courseId siteId w] step by simp
  then show ?case
    using Cons.IH step by (cases r) simp_all
qed

lemma syncAssignChain_distinct:
  assumes "syncAssignChain env assignId siteId w = (Inr r, w')"
  shows "distinct (warnings r)"
proof -
  let ?ss = "getAssignSubmissions assignId siteId w"
  let ?gs = "getAssignSubmissionsGrade assignId siteId w"
  show ?thesis
  proof (cases "?ss = [] \<and> ?gs = []")
    case True
    with assms show ?thesis by (auto simp: syncAssignChain_def)
  next
    case False
    note pending = this
    show ?thesis
    proof (cases "w_online w")
      case False
      with pending assms show ?thesis by (auto simp: syncAssignChain_def Let_def)
    next
      case True
      let ?c = "courseIdOf ?ss ?gs"
      let ?w1 = "logCall (GetAssignmentById ?c assignId siteId) w"
      show ?thesis
      proof (cases "getAssignmentById env (w_log w) ?c assignId siteId")
        case (Inl e)
        with pending True assms show ?thesis by (auto simp: syncAssignChain_def Let_def)
      next
        case (Inr assign)
        obtain ws1 upd1 rej1 w2 where s1:
          "syncSubmissions env assign siteId ?ss ([], False, None) ?w1 = ((ws1, upd1, rej1), w2)"
          by (metis prod.exhaust)
        obtain ws2 upd2 rej2 w3 where s2:
          "syncGrades env assign ?c siteId ?gs (ws1, upd1, rej1) w2 = ((ws2, upd2, rej2), w3)"
          by (metis prod.exhaust)
        have d1: "distinct ws1"
          using syncSubmissions_distinct [of "[]" env assign siteId ?ss False None ?w1] s1 by simp
        have d2: "distinct ws2"
          using syncGrades_distinct [OF d1, of env assign ?c siteId ?gs upd1 rej1 w2] s2 by simp
        have "warnings r = ws2"
          using assms pending True Inr s1 s2
          by (auto simp: syncAssignChain_def Let_def split: option.splits if_splits)
        with d2 show ?thesis by simp
      qed
    qed
  qed
qed

lemma syncAssign_Settled:
  assumes "fst (syncAssign env assignId siteIdArg w) = Settled (Inr r)"
  shows "\<exists>w0 w'. syncAssignChain env assignId (siteIdOr siteIdArg w) w0 = (Inr r, w')"
  using assms
  by (auto simp: syncAssign_def syncAssignStart_def syncAssignSettle_def Let_def
      split: prod.splits sync_call.splits if_splits option.splits)

text \<open>
  C8. The reconciliation of a submission and that of a grade keep a list of warnings
  free of duplicates, and the list of warnings of every result \<open>syncAssign\<close> resolves
  with is free of duplicates.
\<close>

theorem warnings_distinct:
  "(distinct ws \<longrightarrow>
      distinct (fst (snd (syncSubmission env assign s ws siteId w))) \<and>
      distinct (fst (snd (syncSubmissionGrade env assign g ws courseId siteId w)))) \<and>
   (fst (syncAssign env assignId siteIdArg w) = Settled (Inr r) \<longrightarrow> distinct (warnings r))"
proof (intro conjI impI)
  assume "distinct ws"
  then show "distinct (fst (snd (syncSubmission env assign s ws siteId w)))"
    by (rule syncSubmission_distinct)
next
  assume "distinct ws"
  then show "distinct (fst (snd (syncSubmissionGrade env assign g ws courseId siteId w)))"
    by (rule syncSubmissionGrade_distinct)
next
  assume "fst (syncAssign env assignId siteIdArg w) = Settled (Inr r)"
  then obtain w0 w' where "syncAssignChain env assignId (siteIdOr siteIdArg w) w0 = (Inr r, w')"
    using syncAssign_Settled by blast
  then show "distinct (warnings r)"
    by (rule syncAssignChain_distinct)
qed

text \<open>
  Two edits of the same assignment modified on the site: one warning in the result.
\<close>

theorem warnings_distinct_witness:
  "distinct [demoWarning ''addon.mod_assign.warningsubmissionmodified''] \<and>
   distinct (fst (snd (syncSubmission (demoEnv 200 [] (Inr ())) demoAssign (demoEdit 6)
       [demoWarning ''addon.mod_assign.warningsubmissionmodified''] ''site''
       (demoWorld [(''site'', demoEdit 6)] [])))) \<and>
   distinct (fst (snd (syncSubmissionGrade (demoEnv 200 [] (Inr ())) demoAssign (demoGrade 6)
       [demoWarning ''addon.mod_assign.warningsubmissionmodified''] 3 ''site''
       (demoWorld [(''site'', demoEdit 6)] [])))) \<and>
   fst (syncAssign (demoEnv 200 [] (Inr ())) 7 None
       (demoWorld [(''site'', demoEdit 5), (''site'', demoEdit 6)] [])) =
     Settled (Inr \<lparr>warnings = [demoWarning ''addon.mod_assign.warningsubmissionmodified''], updated = True\<rparr>) \<and>
   distinct (warnings \<lparr>warnings = [demoWarning ''addon.mod_assign.warningsubmissionmodified''], updated = True\<rparr>)"
proof -
  have run: "fst (syncAssign (demoEnv 200 [] (Inr ())) 7 None
       (demoWorld [(''site'', demoEdit 5), (''site'', demoEdit 6)] [])) =
     Settled (Inr \<lparr>warnings = [demoWarning ''addon.mod_assign.warningsubmissionmodified''], updated = True\<rparr>)"
    by (simp add: demo_defs assign_defs submission_defs)
  show ?thesis
    using run warnings_distinct [of "[demoWarning ''addon.mod_assign.warningsubmissionmodified'']"
        "demoEnv 200 [] (Inr ())" demoAssign "demoEdit 6" "''site''"
        "demoWorld [(''site'', demoEdit 6)] []" "demoGrade 6" 3 7 None
        "\<lparr>warnings = [demoWarning ''addon.mod_assign.warningsubmissionmodified''], updated = True\<rparr>"]
    by simp
qed

subsection \<open>Upload failures\<close>













subsection \<open>The grade of the gradebook\<close>

lemma overrideGrade_keeps:
  "overrideGrade env gi g od = Inr od' \<Longrightarrow>
     og_timemodified od' = og_timemodified od \<and> og_userid od' = og_userid od"
  by (auto simp: overrideGrade_def split: if_splits option.splits)

lemma overridesGrade_cong:
  "og_timemodified od' = og_timemodified od \<Longrightarrow> overridesGrade od' g = overridesGrade od g"
  by (simp add: overridesGrade_def)

lemma overrideGrade_grade:
  "overrideGrade env gi g od = Inr od' \<Longrightarrow>
     og_grade od' = (if overridesGrade od g then gradebookGrade env gi g else og_grade od)"
  by (auto simp: overrideGrade_def overridesGrade_def split: if_splits option.splits)

lemma overrideGrades_grade:
  "overrideGrades env gi grades od = Inr od' \<Longrightarrow>
     og_grade od' =
       (if filter (overridesGrade od) grades = [] then og_grade od
        else gradebookGrade env gi (last (filter (overridesGrade od) grades)))"
proof (induction grades arbitrary: od)
  case Nil
  then show ?case by simp
next
  case (Cons g grades)
  from Cons.prems obtain od1 where step: "overrideGrade env gi g od = Inr od1"
    and rest: "overrideGrades env gi grades od1 = Inr od'"
    by (cases "overrideGrade env gi g od") simp_all
  have "overridesGrade od1 x = overridesGrade od x" for x
    using overrideGrade_keeps [OF step] by (intro overridesGrade_cong) simp
  then have same: "filter (overridesGrade od1) grades = filter (overridesGrade od) grades"
    by (simp cong: filter_cong)
  have g1: "og_grade od1 = (if overridesGrade od g then gradebookGrade env gi g else og_grade od)"
    using step by (rule overrideGrade_grade)
  have ih: "og_grade od' =
       (if filter (overridesGrade od) grades = [] then og_grade od1
        else gradebookGrade env gi (last (filter (overridesGrade od) grades)))"
    using Cons.IH [OF rest] unfolding same .
  show ?case
  proof (cases "overridesGrade od g")
    case True
    with ih g1 show ?thesis by simp
  next
    case False
    with ih g1 show ?thesis by simp
  qed
qed

lemma overrideGrades_user:
  "overrideGrades env gi grades od = Inr od' \<Longrightarrow> og_userid od' = og_userid od"
proof (induction grades arbitrary: od)
  case Nil
  then show ?case by simp
next
  case (Cons g grades)
  from Cons.prems obtain od1 where step: "overrideGrade env gi g od = Inr od1"
    and rest: "overrideGrades env gi grades od1 = Inr od'"
    by (cases "overrideGrade env gi g od") simp_all
  show ?case
    using Cons.IH [OF rest] overrideGrade_keeps [OF step] by simp
qed

text \<open>
  C3, as amended. For a grade edit that is not stale, when the gradebook and the grade
  information are read and the loop over the entries completes, exactly one upload is
  issued, \<open>submitGradingFormOnline\<close> with the overridden edit. Its grade is the
  value derived from the last entry of the gradebook that has no outcome id and no scale
  id and was graded not before the edit was made (\<open>gradebookGrade\<close>: the result of
  \<open>getSelectedScaleId\<close> on the scale of the module and \<open>gradeformatted\<close> when the
  module has a scale, \<open>parseFloat(gradeformatted) || null\<close> otherwise). When no entry
  is of that kind the grade stored offline is uploaded.
\<close>

theorem gradebook_grade_uploaded:
  assumes "getSubmissionStatus env (w_log w) (a_id assign) (og_userid od) siteId = Inr st"
    and "feedbackTime st = Inr tm"
    and "\<not> js_greater tm (og_timemodified od)"
    and "getGradeModuleItems env (w_log w @ [GetSubmissionStatus (a_id assign) (og_userid od) siteId])
           courseId (a_cmid assign) (og_userid od) siteId = Inr grades"
    and "getModuleBasicGradeInfo env
           (w_log w @ [GetSubmissionStatus (a_id assign) (og_userid od) siteId,
                       GetGradeModuleItems courseId (a_cmid assign) (og_userid od) siteId])
           (a_cmid assign) siteId = Inr gradeInfo"
    and "overrideGrades env gradeInfo grades od = Inr od'"
  shows "filter is_upload (w_log (snd (snd (syncSubmissionGrade env assign od ws courseId siteId w)))) =
           filter is_upload (w_log w) @ [SubmitGradingFormOnline (a_id assign) (og_userid od) od' siteId] \<and>
         og_grade od' =
           (if filter (overridesGrade od) grades = [] then og_grade od
            else gradebookGrade env gradeInfo (last (filter (overridesGrade od) grades)))"
proof -
  have u: "og_userid od' = og_userid od"
    using assms(6) by (rule overrideGrades_user)
  have "filter is_upload (w_log (snd (snd (syncSubmissionGrade env assign od ws courseId siteId w)))) =
           filter is_upload (w_log w) @ [SubmitGradingFormOnline (a_id assign) (og_userid od) od' siteId]"
    using assms u
    by (simp add: syncSubmissionGrade_def uploadGrade_def gradebookOverride_def sendGrade_def
        catchUpload_def deleteSubmissionGrade_def logCall_def Let_def split: sum.splits)
  moreover have "og_grade od' =
           (if filter (overridesGrade od) grades = [] then og_grade od
            else gradebookGrade env gradeInfo (last (filter (overridesGrade od) grades)))"
    using assms(6) by (rule overrideGrades_grade)
  ultimately show ?thesis by (rule conjI)
qed

text \<open>
  A gradebook with a plain entry and an entry of an outcome, both graded at time 150,
  for the edit made at time 100 with the grade 4: the grade 7.5 of the plain entry is
  uploaded.
\<close>

theorem gradebook_grade_uploaded_witness:
  "filter is_upload (w_log (snd (snd (syncSubmissionGrade (demoEnv 100 [demoItem 0, demoItem 3] (Inr ()))
       demoAssign (demoGrade 5) [] 3 ''site'' (demoWorld [] [(''site'', demoGrade 5)]))))) =
     [SubmitGradingFormOnline 7 5 ((demoGrade 5)\<lparr>og_grade := GradeNumber 7.5\<rparr>) ''site''] \<and>
   gradebookGrade (demoEnv 100 [demoItem 0, demoItem 3] (Inr ())) None (demoItem 0) = GradeNumber 7.5"
proof -
  let ?E = "demoEnv 100 [demoItem 0, demoItem 3] (Inr ())"
  let ?W = "demoWorld [] [(''site'', demoGrade 5)]"
  have ids: "a_id demoAssign = 7" "a_cmid demoAssign = 70" "og_userid (demoGrade 5) = 5" "w_log ?W = []"
    "og_timemodified (demoGrade 5) = 100" "og_grade (demoGrade 5) = GradeNumber 4"
    by (simp_all add: demoAssign_def demoGrade_def demoWorld_def)
  have st: "getSubmissionStatus ?E [] 7 5 ''site'' = Inr (demoStatus 100)"
    and items: "getGradeModuleItems ?E ([] @ [GetSubmissionStatus 7 5 ''site'']) 3 70 5 ''site''
                  = Inr [demoItem 0, demoItem 3]"
    and info: "getModuleBasicGradeInfo ?E ([] @ [GetSubmissionStatus 7 5 ''site'',
                  GetGradeModuleItems 3 70 5 ''site'']) 70 ''site'' = Inr None"
    by (simp_all add: demoEnv_def)
  have fb: "feedbackTime (demoStatus 100) = Inr None" "\<not> js_greater None 100"
    by (simp_all add: demoStatus_def feedbackTime_def js_greater_def)
  have g: "gradebookGrade ?E None (demoItem 0) = GradeNumber 7.5"
    by (simp add: gradebookGrade_def parseOrNull_def demoEnv_def demoItem_def)
  have ov: "overrideGrades ?E None [demoItem 0, demoItem 3] (demoGrade 5)
              = Inr ((demoGrade 5)\<lparr>og_grade := GradeNumber 7.5\<rparr>)"
    by (simp add: overrideGrade_def g) (simp add: demoItem_def demoGrade_def demoEnv_def)
  have sel: "filter (overridesGrade (demoGrade 5)) [demoItem 0, demoItem 3] = [demoItem 0]"
    by (simp add: overridesGrade_def demoItem_def demoGrade_def)
  note inst = gradebook_grade_uploaded [where env = ?E and w = ?W and assign = demoAssign
      and od = "demoGrade 5" and siteId = "''site''" and courseId = 3 and ws = "[]",
      unfolded ids, OF st fb items info ov, unfolded sel]
  show ?thesis
    using inst g by simp
qed

text \<open>
  C3 as stated fails: the only entry of the gradebook belongs to an outcome (outcome id
  3). It is graded after the edit was made and its formatted grade is 7.5, but the grade
  uploaded is the grade 4 stored offline.
\<close>

theorem outcome_entry_keeps_offline_grade:
  "og_timemodified (demoGrade 5) < g_gradedategraded (demoItem 3) \<and>
   gradebookGrade (demoEnv 100 [demoItem 3] (Inr ())) None (demoItem 3) = GradeNumber 7.5 \<and>
   og_grade (demoGrade 5) = GradeNumber 4 \<and>
   filter is_upload (w_log (snd (snd (syncSubmissionGrade (demoEnv 100 [demoItem 3] (Inr ()))
       demoAssign (demoGrade 5) [] 3 ''site'' (demoWorld [] [(''site'', demoGrade 5)]))))) =
     [SubmitGradingFormOnline 7 5 (demoGrade 5) ''site'']"
  by (simp add: demo_defs grade_defs)

text \<open>
  What \<open>getSelectedScaleId\<close> returns is the position of the selected text in the
  string of the options, which is not its position in \<open>optionsList\<close>.
\<close>

lemma getSelectedScaleId_offset:
  "optionsList ''Bad, Good'' = ['''', ''Bad'', ''Good''] \<and> getSelectedScaleId ''Bad, Good'' ''Good'' = 5"
  by (simp add: optionsList_def trim_def is_space_def getSelectedScaleId_def indexOf_def)

subsection \<open>syncAssign: nothing pending, offline, in flight\<close>

lemma syncAssign_started:
  assumes "\<not> isSyncing assignId (siteIdOr siteIdArg w) w"
    and "\<not> isBlocked assignId (siteIdOr siteIdArg w) w"
  shows "syncAssign env assignId siteIdArg w =
           (let siteId = siteIdOr siteIdArg w;
                promise = w_nextpromise w;
                (r, w') = syncAssignChain env assignId siteId
                            (addOngoingSync assignId siteId promise (w\<lparr>w_nextpromise := Suc promise\<rparr>))
            in (Settled r, removeOngoingSync assignId siteId (w'\<lparr>w_settled := (promise, r) # w_settled w'\<rparr>)))"
  using assms
  by (simp add: syncAssign_def syncAssignStart_def syncAssignSettle_def Let_def split: prod.splits)

lemma syncAssign_blocked:
  assumes "\<not> isSyncing assignId (siteIdOr siteIdArg w) w"
    and "isBlocked assignId (siteIdOr siteIdArg w) w"
  shows "syncAssign env assignId siteIdArg w =
           (Settled (Inl (RejText (translate env ''core.errorsyncblocked'' [(''$a'', componentTranslate env)]))), w)"
  using assms
  by (simp add: syncAssign_def syncAssignStart_def Let_def)

lemma pending_registered:
  "getAssignSubmissions assignId siteId (addOngoingSync a s p (w\<lparr>w_nextpromise := n\<rparr>)) =
     getAssignSubmissions assignId siteId w"
  "getAssignSubmissionsGrade assignId siteId (addOngoingSync a s p (w\<lparr>w_nextpromise := n\<rparr>)) =
     getAssignSubmissionsGrade assignId siteId w"
  by (simp_all add: getAssignSubmissions_def getAssignSubmissionsGrade_def addOngoingSync_def)

lemma syncAssignChain_nothing_pending:
  assumes "getAssignSubmissions assignId siteId w = []"
    and "getAssignSubmissionsGrade assignId siteId w = []"
  shows "syncAssignChain env assignId siteId w =
           (Inr \<lparr>warnings = [], updated = False\<rparr>, setSyncTime assignId siteId w)"
  using assms by (simp add: syncAssignChain_def)


text \<open>
  C4, as amended. For an assignment that is not blocked, has no sync in flight and has no
  pending offline submission and no pending offline grade, \<open>syncAssign\<close> resolves
  with no warning and \<open>updated\<close> false, and issues no call to the site: the log of
  the calls is as it was.
\<close>

theorem syncAssign_nothing_pending:
  assumes "\<not> isSyncing assignId (siteIdOr siteIdArg w) w"
    and "\<not> isBlocked assignId (siteIdOr siteIdArg w) w"
    and "getAssignSubmissions assignId (siteIdOr siteIdArg w) w = []"
    and "getAssignSubmissionsGrade assignId (siteIdOr siteIdArg w) w = []"
  shows "fst (syncAssign env assignId siteIdArg w) = Settled (Inr \<lparr>warnings = [], updated = False\<rparr>) \<and>
         w_log (snd (syncAssign env assignId siteIdArg w)) = w_log w"
proof -
  let ?site = "siteIdOr siteIdArg w"
  let ?w1 = "addOngoingSync assignId ?site (w_nextpromise w) (w\<lparr>w_nextpromise := Suc (w_nextpromise w)\<rparr>)"
  have chain: "syncAssignChain env assignId ?site ?w1 =
                 (Inr \<lparr>warnings = [], updated = False\<rparr>, setSyncTime assignId ?site ?w1)"
    by (rule syncAssignChain_nothing_pending) (simp_all add: pending_registered assms(3,4))
  have run: "syncAssign env assignId siteIdArg w =
               (Settled (Inr \<lparr>warnings = [], updated = False\<rparr>),
                removeOngoingSync assignId ?site
                  ((setSyncTime assignId ?site ?w1)\<lparr>w_settled :=
                     (w_nextpromise w, Inr \<lparr>warnings = [], updated = False\<rparr>) #
                     w_settled (setSyncTime assignId ?site ?w1)\<rparr>))"
    by (simp add: syncAssign_started [OF assms(1,2)] Let_def chain)
  show ?thesis
    unfolding run
    by (simp add: setSyncTime_def removeOngoingSync_def addOngoingSync_def)
qed


text \<open>
  C10, as amended. For an assignment that is not blocked, has no sync in flight and has
  no pending offline edit, \<open>syncAssign\<close> resolves whether the device is online or
  not, it stores the current time as the time of the last sync, and a call of
  \<open>syncAssignIfNeeded\<close> that follows at once runs no sync.
\<close>

theorem syncAssign_nothing_pending_sets_time:
  assumes "\<not> isSyncing assignId (siteIdOr siteIdArg w) w"
    and "\<not> isBlocked assignId (siteIdOr siteIdArg w) w"
    and "getAssignSubmissions assignId (siteIdOr siteIdArg w) w = []"
    and "getAssignSubmissionsGrade assignId (siteIdOr siteIdArg w) w = []"
  shows "fst (syncAssign env assignId siteIdArg w) = Settled (Inr \<lparr>warnings = [], updated = False\<rparr>) \<and>
         map_of (w_synctimes (snd (syncAssign env assignId siteIdArg w))) (assignId, siteIdOr siteIdArg w)
           = Some (w_now w) \<and>
         syncAssignIfNeeded env assignId siteIdArg (snd (syncAssign env assignId siteIdArg w)) =
           (None, snd (syncAssign env assignId siteIdArg w))"
proof -
  let ?site = "siteIdOr siteIdArg w"
  let ?w1 = "addOngoingSync assignId ?site (w_nextpromise w) (w\<lparr>w_nextpromise := Suc (w_nextpromise w)\<rparr>)"
  have chain: "syncAssignChain env assignId ?site ?w1 =
                 (Inr \<lparr>warnings = [], updated = False\<rparr>, setSyncTime assignId ?site ?w1)"
    by (rule syncAssignChain_nothing_pending) (simp_all add: pending_registered assms(3,4))
  have run: "syncAssign env assignId siteIdArg w =
               (Settled (Inr \<lparr>warnings = [], updated = False\<rparr>),
                removeOngoingSync assignId ?site
                  ((setSyncTime assignId ?site ?w1)\<lparr>w_settled :=
                     (w_nextpromise w, Inr \<lparr>warnings = [], updated = False\<rparr>) #
                     w_settled (setSyncTime assignId ?site ?w1)\<rparr>))"
    by (simp add: syncAssign_started [OF assms(1,2)] Let_def chain)
  show ?thesis
    unfolding run
    by (simp add: setSyncTime_def removeOngoingSync_def addOngoingSync_def syncAssignIfNeeded_def
        isSyncNeeded_def siteIdOr_def split: option.splits)
qed



lemma demo_registry:
  "\<not> isSyncing 7 ''site'' ((demoWorld ss gs)\<lparr>w_online := on, w_blocked := bl\<rparr>)"
  "isBlocked 7 ''site'' ((demoWorld ss gs)\<lparr>w_online := on, w_blocked := bl\<rparr>) = ((7, ''site'') \<in> set bl)"
  "siteIdOr None ((demoWorld ss gs)\<lparr>w_online := on, w_blocked := bl\<rparr>) = ''site''"
  by (simp_all add: isSyncing_def getOngoingSync_def isBlocked_def siteIdOr_def truthy_text_def demoWorld_def)

lemma demo_pending:
  "getAssignSubmissions 7 ''site'' ((demoWorld [] gs)\<lparr>w_online := on, w_blocked := bl\<rparr>) = []"
  "getAssignSubmissionsGrade 7 ''site'' ((demoWorld ss [])\<lparr>w_online := on, w_blocked := bl\<rparr>) = []"
  "getAssignSubmissions 7 ''site'' ((demoWorld [(''site'', demoEdit 5)] gs)\<lparr>w_online := on, w_blocked := bl\<rparr>)
     = [demoEdit 5]"
  by (simp_all add: getAssignSubmissions_def getAssignSubmissionsGrade_def demoWorld_def demoEdit_def)

lemma demo_blocked_text:
  "translate (demoEnv t items answer) ''core.errorsyncblocked''
     [(''$a'', componentTranslate (demoEnv t items answer))] = ''core.errorsyncblocked Assignment''"
  by (simp add: demoEnv_def demoTranslate_def)

text \<open>Assignment 7 with nothing pending, online and not blocked.\<close>

theorem syncAssign_nothing_pending_witness:
  "fst (syncAssign (demoEnv 100 [] (Inr ())) 7 None ((demoWorld [] [])\<lparr>w_online := True, w_blocked := []\<rparr>)) =
     Settled (Inr \<lparr>warnings = [], updated = False\<rparr>) \<and>
   w_log (snd (syncAssign (demoEnv 100 [] (Inr ())) 7 None
     ((demoWorld [] [])\<lparr>w_online := True, w_blocked := []\<rparr>))) = []"
proof -
  let ?W = "(demoWorld [] [])\<lparr>w_online := True, w_blocked := []\<rparr>"
  have free: "\<not> isSyncing 7 (siteIdOr None ?W) ?W" "\<not> isBlocked 7 (siteIdOr None ?W) ?W"
    by (simp_all add: demo_registry)
  have none: "getAssignSubmissions 7 (siteIdOr None ?W) ?W = []"
    "getAssignSubmissionsGrade 7 (siteIdOr None ?W) ?W = []"
    by (simp_all add: demo_registry demo_pending)
  have "w_log ?W = []"
    by (simp add: demoWorld_def)
  then show ?thesis
    using syncAssign_nothing_pending [OF free none, of "demoEnv 100 [] (Inr ())"] by simp
qed

text \<open>
  C4 as stated fails: assignment 7 has nothing pending and is blocked, and
  \<open>syncAssign\<close> rejects with the text of the block.
\<close>

theorem syncAssign_blocked_nothing_pending:
  "getAssignSubmissions 7 ''site'' ((demoWorld [] [])\<lparr>w_online := True, w_blocked := [(7, ''site'')]\<rparr>) = [] \<and>
   getAssignSubmissionsGrade 7 ''site'' ((demoWorld [] [])\<lparr>w_online := True, w_blocked := [(7, ''site'')]\<rparr>) = [] \<and>
   fst (syncAssign (demoEnv 100 [] (Inr ())) 7 None
     ((demoWorld [] [])\<lparr>w_online := True, w_blocked := [(7, ''site'')]\<rparr>)) =
     Settled (Inl (RejText ''core.errorsyncblocked Assignment''))"
proof -
  let ?W = "(demoWorld [] [])\<lparr>w_online := True, w_blocked := [(7, ''site'')]\<rparr>"
  have "syncAssign (demoEnv 100 [] (Inr ())) 7 None ?W =
          (Settled (Inl (RejText ''core.errorsyncblocked Assignment'')), ?W)"
    unfolding demo_blocked_text [of 100 "[]" "Inr ()", symmetric]
    by (rule syncAssign_blocked) (simp_all add: demo_registry)
  then show ?thesis
    by (simp add: demo_pending)
qed


text \<open>Assignment 7 with nothing pending, on a device that is offline, at time 1000.\<close>

theorem syncAssign_nothing_pending_sets_time_witness:
  "\<not> w_online ((demoWorld [] [])\<lparr>w_online := False, w_blocked := []\<rparr>) \<and>
   fst (syncAssign (demoEnv 100 [] (Inr ())) 7 None ((demoWorld [] [])\<lparr>w_online := False, w_blocked := []\<rparr>)) =
     Settled (Inr \<lparr>warnings = [], updated = False\<rparr>) \<and>
   map_of (w_synctimes (snd (syncAssign (demoEnv 100 [] (Inr ())) 7 None
     ((demoWorld [] [])\<lparr>w_online := False, w_blocked := []\<rparr>)))) (7, ''site'') = Some 1000 \<and>
   fst (syncAssignIfNeeded (demoEnv 100 [] (Inr ())) 7 None
     (snd (syncAssign (demoEnv 100 [] (Inr ())) 7 None
       ((demoWorld [] [])\<lparr>w_online := False, w_blocked := []\<rparr>)))) = None"
proof -
  let ?W = "(demoWorld [] [])\<lparr>w_online := False, w_blocked := []\<rparr>"
  have free: "\<not> isSyncing 7 (siteIdOr None ?W) ?W" "\<not> isBlocked 7 (siteIdOr None ?W) ?W"
    by (simp_all add: demo_registry)
  have none: "getAssignSubmissions 7 (siteIdOr None ?W) ?W = []"
    "getAssignSubmissionsGrade 7 (siteIdOr None ?W) ?W = []"
    by (simp_all add: demo_registry demo_pending)
  have site: "siteIdOr None ?W = ''site''"
    by (simp add: demo_registry)
  have "w_now ?W = 1000"
    by (simp add: demoWorld_def)
  with site show ?thesis
    using syncAssign_nothing_pending_sets_time [OF free none, of "demoEnv 100 [] (Inr ())"] by simp
qed

text \<open>
  C10 as stated fails: assignment 7 has nothing pending and is blocked, the device is
  offline; \<open>syncAssign\<close> rejects, the state is as it was (no time of a last sync is
  stored), and a sync is still needed.
\<close>

theorem syncAssign_blocked_offline:
  "\<not> w_online ((demoWorld [] [])\<lparr>w_online := False, w_blocked := [(7, ''site'')]\<rparr>) \<and>
   getAssignSubmissions 7 ''site'' ((demoWorld [] [])\<lparr>w_online := False, w_blocked := [(7, ''site'')]\<rparr>) = [] \<and>
   getAssignSubmissionsGrade 7 ''site'' ((demoWorld [] [])\<lparr>w_online := False, w_blocked := [(7, ''site'')]\<rparr>) = [] \<and>
   syncAssign (demoEnv 100 [] (Inr ())) 7 None
     ((demoWorld [] [])\<lparr>w_online := False, w_blocked := [(7, ''site'')]\<rparr>) =
     (Settled (Inl (RejText ''core.errorsyncblocked Assignment'')),
      (demoWorld [] [])\<lparr>w_online := False, w_blocked := [(7, ''site'')]\<rparr>) \<and>
   isSyncNeeded (demoEnv 100 [] (Inr ())) 7 ''site''
     ((demoWorld [] [])\<lparr>w_online := False, w_blocked := [(7, ''site'')]\<rparr>)"
proof -
  let ?W = "(demoWorld [] [])\<lparr>w_online := False, w_blocked := [(7, ''site'')]\<rparr>"
  have "syncAssign (demoEnv 100 [] (Inr ())) 7 None ?W =
          (Settled (Inl (RejText ''core.errorsyncblocked Assignment'')), ?W)"
    unfolding demo_blocked_text [of 100 "[]" "Inr ()", symmetric]
    by (rule syncAssign_blocked) (simp_all add: demo_registry)
  moreover have "isSyncNeeded (demoEnv 100 [] (Inr ())) 7 ''site'' ?W"
    by (simp add: isSyncNeeded_def demoWorld_def)
  ultimately show ?thesis
    by (simp add: demo_pending)
qed


subsection \<open>syncAssignIfNeeded\<close>







subsection \<open>The flag updated\<close>

















end
